theory Spec2Isabelle
  imports Complex_Main
begin

section \<open>JavaScript values\<close>

text \<open>
  The validators of the repository take a value of type \<^verbatim>\<open>any\<close>. The values modelled
  here are the ones a JSON document deserialises to: \<^verbatim>\<open>null\<close>, booleans, finite numbers
  (every finite double is a rational), strings, arrays and plain objects. An object is the
  list of its own properties in insertion order; a property is read with \<open>map_of\<close>.
  \<^verbatim>\<open>undefined\<close> is not a JSON value: it is what reading a missing property gives, and it is
  \<open>None\<close> of \<open>json option\<close>.
\<close>

datatype json =
    JNull
  | JBool bool
  | JNum rat
  | JStr string
  | JArr "json list"
  | JObj "(string \<times> json) list"

type_synonym jsval = "json option"

text \<open>The only exception the modelled code can raise is a \<^verbatim>\<open>TypeError\<close>.\<close>

datatype error = TypeError

text \<open>
  \<^verbatim>\<open>v.k\<close> for a property name \<open>k\<close> that no prototype defines (all names read by the
  source: \<^verbatim>\<open>i18n\<close>, \<^verbatim>\<open>code\<close>, \<^verbatim>\<open>rarity\<close>, \<^verbatim>\<open>collectionAddress\<close>, \<^verbatim>\<open>merkleProof\<close>).
  Reading a property of \<^verbatim>\<open>null\<close> or \<^verbatim>\<open>undefined\<close> throws; an object gives its own
  property or \<^verbatim>\<open>undefined\<close>; an array or a primitive has no such property.
\<close>

fun prop_of :: "json \<Rightarrow> string \<Rightarrow> error + jsval" where
  "prop_of JNull k = Inl TypeError"
| "prop_of (JObj kvs) k = Inr (map_of kvs k)"
| "prop_of v k = Inr None"

fun read :: "jsval \<Rightarrow> string \<Rightarrow> error + jsval" where
  "read None k = Inl TypeError"
| "read (Some v) k = prop_of v k"

text \<open>\<^verbatim>\<open>!!v\<close>: the truthiness of a value.\<close>

fun truthy :: "jsval \<Rightarrow> bool" where
  "truthy None = False"
| "truthy (Some JNull) = False"
| "truthy (Some (JBool b)) = b"
| "truthy (Some (JNum n)) = (n \<noteq> 0)"
| "truthy (Some (JStr s)) = (s \<noteq> [])"
| "truthy (Some (JArr xs)) = True"
| "truthy (Some (JObj kvs)) = True"

text \<open>
  \<^verbatim>\<open>a === b\<close> for two values read from two different places of a deserialised document:
  primitives are compared by value, while objects and arrays are compared by reference, and
  two places of a JSON document never hold the same reference.
\<close>

fun strict_equals :: "jsval \<Rightarrow> jsval \<Rightarrow> bool" where
  "strict_equals None None = True"
| "strict_equals (Some JNull) (Some JNull) = True"
| "strict_equals (Some (JBool a)) (Some (JBool b)) = (a = b)"
| "strict_equals (Some (JNum a)) (Some (JNum b)) = (a = b)"
| "strict_equals (Some (JStr a)) (Some (JStr b)) = (a = b)"
| "strict_equals a b = False"

text \<open>
  \<^verbatim>\<open>Array.prototype.every\<close> and \<^verbatim>\<open>Array.prototype.findIndex\<close>. The callback receives the
  element and its index; the third argument of each function is the index of the first
  element of the list. \<^verbatim>\<open>every\<close> stops at the first element the callback rejects,
  \<^verbatim>\<open>findIndex\<close> at the first one it accepts (\<open>-1\<close> when there is none), and an exception
  of the callback ends both.
\<close>

fun every :: "('a \<Rightarrow> nat \<Rightarrow> error + bool) \<Rightarrow> 'a list \<Rightarrow> nat \<Rightarrow> error + bool" where
  "every f [] i = Inr True"
| "every f (x # xs) i =
     (case f x i of
        Inl e \<Rightarrow> Inl e
      | Inr b \<Rightarrow> if b then every f xs (Suc i) else Inr False)"

fun findIndex :: "('a \<Rightarrow> nat \<Rightarrow> error + bool) \<Rightarrow> 'a list \<Rightarrow> nat \<Rightarrow> error + int" where
  "findIndex f [] i = Inr (- 1)"
| "findIndex f (x # xs) i =
     (case f x i of
        Inl e \<Rightarrow> Inl e
      | Inr b \<Rightarrow> if b then Inr (int i) else findIndex f xs (Suc i))"

section \<open>Schemas and the validator factory\<close>

text \<open>
  The schema language, restricted to the keywords the schemas of the repository use:
  \<^verbatim>\<open>type\<close>, \<^verbatim>\<open>nullable\<close>, \<^verbatim>\<open>enum\<close> (of string constants), \<^verbatim>\<open>properties\<close>,
  \<^verbatim>\<open>additionalProperties\<close> (a boolean or a schema), \<^verbatim>\<open>required\<close>, \<^verbatim>\<open>items\<close>,
  \<^verbatim>\<open>minItems\<close> and \<^verbatim>\<open>minLength\<close>. An absent keyword is \<open>None\<close>, the empty list,
  \<open>AnyAdditional\<close> or \<open>0\<close>.
\<close>

datatype jtype = TString | TNumber | TInteger | TBoolean | TObject | TArray | TNull

datatype 'a additional = AnyAdditional | NoAdditional | AdditionalSchema 'a

datatype schema = Schema
  (s_type: "jtype option")
  (s_nullable: bool)
  (s_enum: "string list option")
  (s_properties: "(string \<times> schema) list")
  (s_additionalProperties: "schema additional")
  (s_required: "string list")
  (s_items: "schema option")
  (s_minItems: nat)
  (s_minLength: nat)

fun has_type :: "jtype \<Rightarrow> json \<Rightarrow> bool" where
  "has_type TString (JStr s) = True"
| "has_type TNumber (JNum n) = True"
| "has_type TInteger (JNum n) = (of_int \<lfloor>n\<rfloor> = n)"
| "has_type TBoolean (JBool b) = True"
| "has_type TObject (JObj kvs) = True"
| "has_type TArray (JArr xs) = True"
| "has_type TNull JNull = True"
| "has_type t v = False"

text \<open>
  Modelled from the spec: \<^verbatim>\<open>generateValidator\<close> of \<^verbatim>\<open>../validation\<close>, the validator
  factory, which "takes a schema description and returns a predicate function that checks
  an arbitrary value against it"; its source is not among the sources verified here. The
  predicate is JSON-Schema validation: \<^verbatim>\<open>type\<close> fixes the type of the value, and
  \<^verbatim>\<open>nullable\<close> admits \<^verbatim>\<open>null\<close> beside it; \<^verbatim>\<open>enum\<close> lists the admitted values; the
  keywords for strings, arrays and objects constrain only values of that type; a declared
  property is checked when the object has it, \<^verbatim>\<open>required\<close> demands it, and
  \<^verbatim>\<open>additionalProperties\<close> speaks about the properties that are not declared.
\<close>

fun validates :: "schema \<Rightarrow> json \<Rightarrow> bool" where
  "validates (Schema ty nullable enum props addl req items minItems minLength) v =
     ((case ty of None \<Rightarrow> True | Some t \<Rightarrow> has_type t v \<or> (nullable \<and> v = JNull))
    \<and> (case enum of
          None \<Rightarrow> True
        | Some allowed \<Rightarrow> (case v of JStr s \<Rightarrow> s \<in> set allowed | _ \<Rightarrow> False))
    \<and> (case v of
          JStr s \<Rightarrow> minLength \<le> length s
        | JArr xs \<Rightarrow>
            minItems \<le> length xs
            \<and> (case items of None \<Rightarrow> True | Some si \<Rightarrow> list_all (validates si) xs)
        | JObj kvs \<Rightarrow>
            list_all (\<lambda>k. k \<in> fst ` set kvs) req
            \<and> list_all
                (\<lambda>(k, s). case map_of kvs k of None \<Rightarrow> True | Some x \<Rightarrow> validates s x)
                props
            \<and> (case addl of
                  AnyAdditional \<Rightarrow> True
                | NoAdditional \<Rightarrow> list_all (\<lambda>(k, x). k \<in> fst ` set props) kvs
                | AdditionalSchema sa \<Rightarrow>
                    list_all (\<lambda>(k, x). k \<in> fst ` set props \<or> validates sa x) kvs)
        | _ \<Rightarrow> True))"

text \<open>
  The generated predicate takes any value. \<^verbatim>\<open>undefined\<close> has no JSON type and equals no
  enum constant, and the remaining keywords do not constrain it.
\<close>

fun generateValidator :: "schema \<Rightarrow> jsval \<Rightarrow> bool" where
  "generateValidator s None = (s_type s = None \<and> s_enum s = None)"
| "generateValidator s (Some v) = validates s v"

text \<open>\<^verbatim>\<open>{ type: t }\<close>, and \<^verbatim>\<open>{ ...s, nullable: true }\<close>.\<close>

definition of_type :: "jtype \<Rightarrow> schema" where
  "of_type t = Schema (Some t) False None [] AnyAdditional [] None 0 0"

fun nullable :: "schema \<Rightarrow> schema" where
  "nullable (Schema ty n enum props addl req items minItems minLength) =
     Schema ty True enum props addl req items minItems minLength"

text \<open>
  \<^verbatim>\<open>{ ...base, k1: s1, ..., kn: sn }\<close>: the properties of the literal replace the
  properties of the same name that the spread brought in. (The order of the properties
  of the result is not the one of JavaScript; no validator observes it.)
\<close>

definition spread :: "(string \<times> 'a) list \<Rightarrow> (string \<times> 'a) list \<Rightarrow> (string \<times> 'a) list" where
  "spread base literal = filter (\<lambda>(k, s). k \<notin> fst ` set literal) base @ literal"

section \<open>The enumeration modules\<close>

text \<open>
  Each module is a string enum, the schema \<^verbatim>\<open>{ type: 'string', enum: Object.values(E) }\<close>
  and the validator generated from it. \<^verbatim>\<open>Object.values\<close> of a string enum lists the
  values of its members in the order of declaration.
\<close>

datatype Network = ETHEREUM | MATIC | BSC | TEST

fun Network_value :: "Network \<Rightarrow> string" where
  "Network_value ETHEREUM = ''ETHEREUM''"
| "Network_value MATIC = ''MATIC''"
| "Network_value BSC = ''BSC''"
| "Network_value TEST = ''TEST''"

definition Network_schema :: schema where
  "Network_schema =
     Schema (Some TString) False (Some (map Network_value [ETHEREUM, MATIC, BSC, TEST]))
       [] AnyAdditional [] None 0 0"

definition Network_validate :: "jsval \<Rightarrow> bool" where
  "Network_validate = generateValidator Network_schema"

datatype NFTCategory = PARCEL | ESTATE | WEARABLE | PROPS | ENS | EMOTE

fun NFTCategory_value :: "NFTCategory \<Rightarrow> string" where
  "NFTCategory_value PARCEL = ''parcel''"
| "NFTCategory_value ESTATE = ''estate''"
| "NFTCategory_value WEARABLE = ''wearable''"
| "NFTCategory_value PROPS = ''props''"
| "NFTCategory_value ENS = ''ens''"
| "NFTCategory_value EMOTE = ''emote''"

definition NFTCategory_schema :: schema where
  "NFTCategory_schema =
     Schema (Some TString) False
       (Some (map NFTCategory_value [PARCEL, ESTATE, WEARABLE, PROPS, ENS, EMOTE]))
       [] AnyAdditional [] None 0 0"

definition NFTCategory_validate :: "jsval \<Rightarrow> bool" where
  "NFTCategory_validate = generateValidator NFTCategory_schema"

datatype PropsCategory = DIAMOND | BOX | FRAGMENTS | VIBRANIUM

fun PropsCategory_value :: "PropsCategory \<Rightarrow> string" where
  "PropsCategory_value DIAMOND = ''diamond''"
| "PropsCategory_value BOX = ''box''"
| "PropsCategory_value FRAGMENTS = ''fragments''"
| "PropsCategory_value VIBRANIUM = ''vibranium''"

definition PropsCategory_schema :: schema where
  "PropsCategory_schema =
     Schema (Some TString) False
       (Some (map PropsCategory_value [DIAMOND, BOX, FRAGMENTS, VIBRANIUM]))
       [] AnyAdditional [] None 0 0"

definition PropsCategory_validate :: "jsval \<Rightarrow> bool" where
  "PropsCategory_validate = generateValidator PropsCategory_schema"

section \<open>The modules the wearable module imports\<close>

text \<open>
  The wearable module imports the schemas of \<^verbatim>\<open>Rarity\<close>, \<^verbatim>\<open>WearableCategory\<close>,
  \<^verbatim>\<open>I18N\<close>, \<^verbatim>\<open>WearableRepresentation\<close>, \<^verbatim>\<open>Metrics\<close> and \<^verbatim>\<open>MerkleProof\<close> and the
  constant \<^verbatim>\<open>displayableProperties\<close>. Their declarations are not among the sources
  verified here, so they are parameters of everything below. Of the Merkle proof the
  parameters are the schema of one hash of the proof, and the properties and required
  names its schema has besides \<^verbatim>\<open>proof\<close> and \<^verbatim>\<open>hashingKeys\<close>.
\<close>

record deps =
  Rarity_schema :: schema
  WearableCategory_schema :: schema
  I18N_schema :: schema
  WearableRepresentation_schema :: schema
  Metrics_schema :: schema
  displayableProperties :: "(string \<times> schema) list"
  MerkleProof_hash_schema :: schema
  MerkleProof_more_properties :: "(string \<times> schema) list"
  MerkleProof_more_required :: "string list"

text \<open>
  Modelled from the spec: \<^verbatim>\<open>Rarity.validate\<close> of \<^verbatim>\<open>../../dapps/rarity\<close>. Every
  enumeration module pairs its schema fragment with the validator generated from it.
\<close>

definition Rarity_validate :: "deps \<Rightarrow> jsval \<Rightarrow> bool" where
  "Rarity_validate env = generateValidator (Rarity_schema env)"

text \<open>
  Modelled from the spec: \<^verbatim>\<open>MerkleProof.schema\<close> and \<^verbatim>\<open>MerkleProof.validate\<close> of
  \<^verbatim>\<open>../merkle-tree\<close>. A Merkle proof is "a structural sequence of hash values plus named
  keys": an object with the array \<^verbatim>\<open>proof\<close> of hashes and the array \<^verbatim>\<open>hashingKeys\<close> of
  strings. Structural validation is the guard that "establishes the field exists with the
  expected shape" before \<^verbatim>\<open>validateThirdParty\<close> reads the two fields, so both are
  required.
\<close>

definition MerkleProof_schema :: "deps \<Rightarrow> schema" where
  "MerkleProof_schema env =
     Schema (Some TObject) False None
       (spread (MerkleProof_more_properties env)
          [(''proof'',
              Schema (Some TArray) False None [] AnyAdditional []
                (Some (MerkleProof_hash_schema env)) 0 0),
           (''hashingKeys'',
              Schema (Some TArray) False None [] AnyAdditional []
                (Some (of_type TString)) 0 0)])
       AnyAdditional
       ([''proof'', ''hashingKeys''] @ MerkleProof_more_required env)
       None 0 0"

definition MerkleProof_validate :: "deps \<Rightarrow> jsval \<Rightarrow> bool" where
  "MerkleProof_validate env = generateValidator (MerkleProof_schema env)"

section \<open>The wearable module\<close>

subsection \<open>The third-party check\<close>

text \<open>
  \<^verbatim>\<open>merkleProof.hashingKeys\<close> and \<^verbatim>\<open>merkleProof.proof\<close> of a value narrowed to the type
  \<^verbatim>\<open>MerkleProof\<close>: the strings of the one array and the elements of the other.
\<close>

fun string_of :: "json \<Rightarrow> string option" where
  "string_of (JStr s) = Some s"
| "string_of v = None"

fun strings_of :: "json list \<Rightarrow> string list option" where
  "strings_of [] = Some []"
| "strings_of (x # xs) =
     (case string_of x of
        None \<Rightarrow> None
      | Some s \<Rightarrow> (case strings_of xs of None \<Rightarrow> None | Some ss \<Rightarrow> Some (s # ss)))"

fun MerkleProof_fields :: "jsval \<Rightarrow> (string list \<times> json list) option" where
  "MerkleProof_fields (Some (JObj mp)) =
     (case (map_of mp ''hashingKeys'', map_of mp ''proof'') of
        (Some (JArr ks), Some (JArr proof)) \<Rightarrow>
          (case strings_of ks of None \<Rightarrow> None | Some hashingKeys \<Rightarrow> Some (hashingKeys, proof))
      | _ \<Rightarrow> None)"
| "MerkleProof_fields v = None"

text \<open>
  \<^verbatim>\<open>wearable.hasOwnProperty(key)\<close>. The method is looked up on the wearable itself first.
  An object without an own property of that name inherits the method of
  \<^verbatim>\<open>Object.prototype\<close>, which tells whether \<open>key\<close> is an own property. An object that has
  an own property \<^verbatim>\<open>hasOwnProperty\<close> holds a JSON value there, which is not a function,
  and the call throws. (Only an object reaches the call: the Merkle proof was read from the
  wearable.)
\<close>

fun hasOwnProperty :: "json \<Rightarrow> string \<Rightarrow> error + bool" where
  "hasOwnProperty (JObj own) key =
     (if ''hasOwnProperty'' \<in> fst ` set own then Inl TypeError
      else Inr (key \<in> fst ` set own))"
| "hasOwnProperty JNull key = Inl TypeError"
| "hasOwnProperty v key = Inr False"

text \<open>
  A value accepted by \<^verbatim>\<open>MerkleProof.validate\<close> has the two fields (lemma
  \<open>MerkleProof_validate_fields\<close> below), so the branch of the model for a proof without
  them is never taken.
\<close>

definition validateThirdParty :: "deps \<Rightarrow> json \<Rightarrow> error + bool" where
  "validateThirdParty env wearable =
     (case prop_of wearable ''merkleProof'' of
        Inl e \<Rightarrow> Inl e
      | Inr merkleProof \<Rightarrow>
          if \<not> MerkleProof_validate env merkleProof then Inr False
          else (case MerkleProof_fields merkleProof of
                  None \<Rightarrow> Inl TypeError
                | Some (hashingKeys, proof) \<Rightarrow>
                    if length hashingKeys = 0 then Inr False
                    else (case every (\<lambda>key i. hasOwnProperty wearable key) hashingKeys 0 of
                            Inl e \<Rightarrow> Inl e
                          | Inr containsAllKeys \<Rightarrow>
                              let proofIsNotEmpty = (length proof > 0)
                              in Inr (containsAllKeys \<and> proofIsNotEmpty))))"

subsection \<open>The standard check\<close>

definition validateStandardWearable :: "deps \<Rightarrow> jsval \<Rightarrow> jsval \<Rightarrow> bool" where
  "validateStandardWearable env rarity collectionAddress =
     (Rarity_validate env rarity \<and> truthy collectionAddress)"

definition isStandard :: "deps \<Rightarrow> json \<Rightarrow> error + bool" where
  "isStandard env wearable =
     (case prop_of wearable ''rarity'' of
        Inl e \<Rightarrow> Inl e
      | Inr rarity \<Rightarrow>
          (case prop_of wearable ''collectionAddress'' of
             Inl e \<Rightarrow> Inl e
           | Inr collectionAddress \<Rightarrow>
               Inr (validateStandardWearable env rarity collectionAddress)))"

definition isThirdParty :: "deps \<Rightarrow> json \<Rightarrow> error + bool" where
  "isThirdParty env wearable = validateThirdParty env wearable"

subsection \<open>The schema\<close>

definition Wearable_data_schema :: "deps \<Rightarrow> schema" where
  "Wearable_data_schema env =
     Schema (Some TObject) False None
       [(''replaces'',
           Schema (Some TArray) False None [] AnyAdditional []
             (Some (WearableCategory_schema env)) 0 0),
        (''hides'',
           Schema (Some TArray) False None [] AnyAdditional []
             (Some (WearableCategory_schema env)) 0 0),
        (''tags'',
           Schema (Some TArray) False None [] AnyAdditional []
             (Some (Schema (Some TString) False None [] AnyAdditional [] None 0 1)) 0 0),
        (''representations'',
           Schema (Some TArray) False None [] AnyAdditional []
             (Some (WearableRepresentation_schema env)) 1 0),
        (''category'', WearableCategory_schema env)]
       NoAdditional
       [''replaces'', ''hides'', ''tags'', ''representations'', ''category'']
       None 0 0"

definition Wearable_content_schema :: schema where
  "Wearable_content_schema =
     Schema (Some TObject) True None [] (AdditionalSchema (of_type TString)) [] None 0 0"

text \<open>
  The properties the schema literal declares itself, and all its properties:
  \<^verbatim>\<open>{ ...displayableProperties, id: ..., ..., content: ... }\<close>.
\<close>

definition Wearable_literal_properties :: "deps \<Rightarrow> (string \<times> schema) list" where
  "Wearable_literal_properties env =
     [(''id'', of_type TString),
      (''description'', of_type TString),
      (''collectionAddress'', nullable (of_type TString)),
      (''rarity'', nullable (Rarity_schema env)),
      (''name'', of_type TString),
      (''i18n'',
         Schema (Some TArray) False None [] AnyAdditional [] (Some (I18N_schema env)) 1 0),
      (''data'', Wearable_data_schema env),
      (''thumbnail'', of_type TString),
      (''image'', of_type TString),
      (''metrics'', nullable (Metrics_schema env)),
      (''merkleProof'', nullable (MerkleProof_schema env)),
      (''content'', Wearable_content_schema)]"

definition Wearable_properties :: "deps \<Rightarrow> (string \<times> schema) list" where
  "Wearable_properties env =
     spread (displayableProperties env) (Wearable_literal_properties env)"

definition Wearable_schema :: "deps \<Rightarrow> schema" where
  "Wearable_schema env =
     Schema (Some TObject) False None
       (Wearable_properties env)
       AnyAdditional
       [''id'', ''description'', ''name'', ''data'', ''thumbnail'', ''image'', ''i18n'']
       None 0 0"

definition schemaValidator :: "deps \<Rightarrow> jsval \<Rightarrow> bool" where
  "schemaValidator env = generateValidator (Wearable_schema env)"

subsection \<open>The validator\<close>

definition XOR :: "bool \<Rightarrow> bool \<Rightarrow> bool" where
  "XOR b1 b2 = ((b1 \<and> \<not> b2) \<or> (b2 \<and> \<not> b1))"

text \<open>
  \<^verbatim>\<open>i18ns.every(({ code }, index) => i18ns.findIndex((i18n) => i18n.code === code) === index)\<close>.
  Calling \<^verbatim>\<open>every\<close> on anything but an array throws. Destructuring an entry reads its
  \<^verbatim>\<open>code\<close>. In the comparison, the entry at \<open>index\<close> itself holds the very value
  \<open>code\<close> was read from; every other entry is another place of the document.
\<close>

definition validateDuplicatedLocales :: "jsval \<Rightarrow> error + bool" where
  "validateDuplicatedLocales i18ns =
     (case i18ns of
        Some (JArr entries) \<Rightarrow>
          every
            (\<lambda>entry index.
               case prop_of entry ''code'' of
                 Inl e \<Rightarrow> Inl e
               | Inr code \<Rightarrow>
                   (case findIndex
                           (\<lambda>i18n j.
                              case prop_of i18n ''code'' of
                                Inl e \<Rightarrow> Inl e
                              | Inr c \<Rightarrow> Inr (j = index \<or> strict_equals c code))
                           entries 0 of
                      Inl e \<Rightarrow> Inl e
                    | Inr found \<Rightarrow> Inr (found = int index)))
            entries 0
      | _ \<Rightarrow> Inl TypeError)"

text \<open>
  \<^verbatim>\<open>schemaValidator(wearable) && validateDuplicatedLocales(wearable.i18n) && XOR(...)\<close>:
  \<^verbatim>\<open>&&\<close> evaluates its right operand only when the left one is true, and the two
  arguments of \<^verbatim>\<open>XOR\<close> are evaluated from left to right before the call. A wearable
  that is \<^verbatim>\<open>undefined\<close> has no property to read (the schema rejects it before).
\<close>

definition validate :: "deps \<Rightarrow> jsval \<Rightarrow> error + bool" where
  "validate env wearable =
     (if \<not> schemaValidator env wearable then Inr False
      else (case read wearable ''i18n'' of
              Inl e \<Rightarrow> Inl e
            | Inr i18n \<Rightarrow>
                (case validateDuplicatedLocales i18n of
                   Inl e \<Rightarrow> Inl e
                 | Inr unique \<Rightarrow>
                     if \<not> unique then Inr False
                     else (case read wearable ''rarity'' of
                             Inl e \<Rightarrow> Inl e
                           | Inr rarity \<Rightarrow>
                               (case read wearable ''collectionAddress'' of
                                  Inl e \<Rightarrow> Inl e
                                | Inr collectionAddress \<Rightarrow>
                                    let standard =
                                      validateStandardWearable env rarity collectionAddress
                                    in (case wearable of
                                          None \<Rightarrow> Inl TypeError
                                        | Some w \<Rightarrow>
                                            (case validateThirdParty env w of
                                               Inl e \<Rightarrow> Inl e
                                             | Inr thirdParty \<Rightarrow>
                                                 Inr (XOR standard thirdParty))))))))"

section \<open>The properties of the specification\<close>

text \<open>
  The two conditions in the words of the specification. The standard one: "\<^verbatim>\<open>rarity\<close>
  passes its enum validator AND \<^verbatim>\<open>collectionAddress\<close> is a non-empty string". The
  third-party one: "\<^verbatim>\<open>merkleProof\<close> passes structural validation AND has at least one
  hashing key AND every hashing key names an existing property on the wearable AND the
  proof sequence is non-empty". Both speak about the own properties of a wearable.
\<close>

definition standardFields :: "deps \<Rightarrow> (string \<times> json) list \<Rightarrow> bool" where
  "standardFields env own =
     (Rarity_validate env (map_of own ''rarity'')
      \<and> (case map_of own ''collectionAddress'' of Some (JStr a) \<Rightarrow> a \<noteq> [] | _ \<Rightarrow> False))"

definition wellFormedMerkleProof :: "deps \<Rightarrow> (string \<times> json) list \<Rightarrow> bool" where
  "wellFormedMerkleProof env own =
     (MerkleProof_validate env (map_of own ''merkleProof'')
      \<and> (case MerkleProof_fields (map_of own ''merkleProof'') of
            None \<Rightarrow> False
          | Some (hashingKeys, proof) \<Rightarrow>
              hashingKeys \<noteq> []
              \<and> list_all (\<lambda>key. key \<in> fst ` set own) hashingKeys
              \<and> proof \<noteq> []))"

text \<open>
  The two shapes of the data model in the words of the specification. Standard: "has both
  \<^verbatim>\<open>rarity\<close> and \<^verbatim>\<open>collectionAddress\<close>, lacks \<^verbatim>\<open>merkleProof\<close> and \<^verbatim>\<open>content\<close>".
  Third-party: "has a well-formed \<^verbatim>\<open>merkleProof\<close>, lacks \<^verbatim>\<open>rarity\<close> and
  \<^verbatim>\<open>collectionAddress\<close>".
\<close>

definition Standard_shape :: "(string \<times> json) list \<Rightarrow> bool" where
  "Standard_shape own =
     (''rarity'' \<in> fst ` set own \<and> ''collectionAddress'' \<in> fst ` set own
      \<and> ''merkleProof'' \<notin> fst ` set own \<and> ''content'' \<notin> fst ` set own)"

definition ThirdParty_shape :: "deps \<Rightarrow> (string \<times> json) list \<Rightarrow> bool" where
  "ThirdParty_shape env own =
     (wellFormedMerkleProof env own
      \<and> ''rarity'' \<notin> fst ` set own \<and> ''collectionAddress'' \<notin> fst ` set own)"

text \<open>
  The type \<^verbatim>\<open>string | undefined\<close> of the optional field \<^verbatim>\<open>collectionAddress\<close>, with the
  \<^verbatim>\<open>null\<close> its schema admits.
\<close>

fun optional_string :: "jsval \<Rightarrow> bool" where
  "optional_string None = True"
| "optional_string (Some JNull) = True"
| "optional_string (Some (JStr a)) = True"
| "optional_string v = False"

text \<open>The locale code of an entry of \<^verbatim>\<open>i18n\<close>: the string under \<^verbatim>\<open>code\<close>.\<close>

fun locale_code :: "json \<Rightarrow> string option" where
  "locale_code (JObj entry) =
     (case map_of entry ''code'' of Some (JStr c) \<Rightarrow> Some c | _ \<Rightarrow> None)"
| "locale_code v = None"

text \<open>The hashing keys of the Merkle proof of a wearable, if it has one of the right type.\<close>

definition hashingKeys_of :: "(string \<times> json) list \<Rightarrow> string list" where
  "hashingKeys_of own =
     (case MerkleProof_fields (map_of own ''merkleProof'') of
        None \<Rightarrow> []
      | Some (hashingKeys, proof) \<Rightarrow> hashingKeys)"

section \<open>Example values\<close>

text \<open>
  An instance of the imported modules and a few wearables, to evaluate the validators on.
  The instance is small: three rarities, three categories, two locales, a representation
  with a main file, metrics with a triangle count, the display property
  \<^verbatim>\<open>menuBarIcon\<close>, and a Merkle proof whose hashes are strings and which also requires
  \<^verbatim>\<open>index\<close> and \<^verbatim>\<open>entityHash\<close>.
\<close>

definition example_deps :: deps where
  "example_deps =
     \<lparr> Rarity_schema =
         Schema (Some TString) False (Some [''unique'', ''mythic'', ''common''])
           [] AnyAdditional [] None 0 0,
       WearableCategory_schema =
         Schema (Some TString) False (Some [''hat'', ''eyes'', ''feet''])
           [] AnyAdditional [] None 0 0,
       I18N_schema =
         Schema (Some TObject) False None
           [(''code'',
               Schema (Some TString) False (Some [''en'', ''es'']) [] AnyAdditional [] None 0 0),
            (''text'', of_type TString)]
           NoAdditional [''code'', ''text''] None 0 0,
       WearableRepresentation_schema =
         Schema (Some TObject) False None
           [(''mainFile'', Schema (Some TString) False None [] AnyAdditional [] None 0 1)]
           AnyAdditional [''mainFile''] None 0 0,
       Metrics_schema =
         Schema (Some TObject) False None [(''triangles'', of_type TNumber)]
           NoAdditional [''triangles''] None 0 0,
       displayableProperties = [(''menuBarIcon'', nullable (of_type TString))],
       MerkleProof_hash_schema = of_type TString,
       MerkleProof_more_properties =
         [(''index'', of_type TNumber), (''entityHash'', of_type TString)],
       MerkleProof_more_required = [''index'', ''entityHash''] \<rparr>"

text \<open>The fields every example wearable has, with one entry for each of two locales.\<close>

definition example_i18n :: "string \<Rightarrow> string \<Rightarrow> json" where
  "example_i18n c t = JObj [(''code'', JStr c), (''text'', JStr t)]"

definition example_common :: "json list \<Rightarrow> (string \<times> json) list" where
  "example_common i18n =
     [(''id'', JStr ''urn:wearable:1''),
      (''description'', JStr ''a hat''),
      (''name'', JStr ''hat''),
      (''data'',
         JObj [(''replaces'', JArr []),
               (''hides'', JArr []),
               (''tags'', JArr [JStr ''tag'']),
               (''representations'', JArr [JObj [(''mainFile'', JStr ''hat.glb'')]]),
               (''category'', JStr ''hat'')]),
      (''thumbnail'', JStr ''thumbnail.png''),
      (''image'', JStr ''image.png''),
      (''i18n'', JArr i18n)]"

definition example_locales :: "json list" where
  "example_locales = [example_i18n ''en'' ''hat'', example_i18n ''es'' ''sombrero'']"

definition example_standard_fields :: "(string \<times> json) list" where
  "example_standard_fields =
     [(''rarity'', JStr ''unique''), (''collectionAddress'', JStr ''0xabc'')]"

definition example_merkleProof :: "string list \<Rightarrow> json" where
  "example_merkleProof keys =
     JObj [(''proof'', JArr [JStr ''0x01'', JStr ''0x02'']),
           (''index'', JNum 0),
           (''hashingKeys'', JArr (map JStr keys)),
           (''entityHash'', JStr ''0x03'')]"

definition example_content :: json where
  "example_content = JObj [(''hat.glb'', JStr ''Qm1'')]"

text \<open>A standard wearable, and the same wearable with a \<^verbatim>\<open>content\<close> record.\<close>

definition example_standard :: "(string \<times> json) list" where
  "example_standard = example_common example_locales @ example_standard_fields"

definition example_standard_with_content :: "(string \<times> json) list" where
  "example_standard_with_content = example_standard @ [(''content'', example_content)]"

text \<open>A third-party wearable whose proof hashes its \<^verbatim>\<open>id\<close> and its \<^verbatim>\<open>name\<close>.\<close>

definition example_third_party :: "(string \<times> json) list" where
  "example_third_party =
     example_common example_locales
       @ [(''merkleProof'', example_merkleProof [''id'', ''name''])]"

text \<open>The same third-party wearable with a \<^verbatim>\<open>rarity\<close>, but no collection address.\<close>

definition example_third_party_with_rarity :: "(string \<times> json) list" where
  "example_third_party_with_rarity = example_third_party @ [(''rarity'', JStr ''unique'')]"

text \<open>The same third-party wearable with one more property, named \<^verbatim>\<open>hasOwnProperty\<close>.\<close>

definition example_shadowing :: "(string \<times> json) list" where
  "example_shadowing = example_third_party @ [(''hasOwnProperty'', JBool True)]"

text \<open>
  A standard wearable that also carries a Merkle proof over a \<^verbatim>\<open>content\<close> it does not
  have, and the same wearable once the \<^verbatim>\<open>content\<close> is added.
\<close>

definition example_standard_hashing_content :: "(string \<times> json) list" where
  "example_standard_hashing_content =
     example_standard @ [(''merkleProof'', example_merkleProof [''content''])]"

definition example_standard_hashing_content_added :: "(string \<times> json) list" where
  "example_standard_hashing_content_added =
     example_standard_hashing_content @ [(''content'', example_content)]"

text \<open>A standard wearable with two entries for the locale \<^verbatim>\<open>en\<close>.\<close>

definition example_repeated_locale :: "(string \<times> json) list" where
  "example_repeated_locale =
     example_common [example_i18n ''en'' ''hat'', example_i18n ''es'' ''sombrero'',
                     example_i18n ''en'' ''cap'']
       @ example_standard_fields"

section \<open>Verification\<close>

subsection \<open>What a valid value looks like\<close>

lemma validates_type:
  "validates s v \<Longrightarrow> s_type s = Some t \<Longrightarrow> has_type t v \<or> (s_nullable s \<and> v = JNull)"
  by (cases s) simp

lemma validates_required:
  "validates s (JObj own) \<Longrightarrow> k \<in> set (s_required s) \<Longrightarrow> k \<in> fst ` set own"
  by (cases s) (simp add: list_all_iff)

lemma validates_property:
  "validates s (JObj own) \<Longrightarrow> (k, p) \<in> set (s_properties s) \<Longrightarrow> map_of own k = Some x
     \<Longrightarrow> validates p x"
  by (cases s) (auto simp: list_all_iff)

lemma validates_no_additional:
  "validates s (JObj own) \<Longrightarrow> s_additionalProperties s = NoAdditional
     \<Longrightarrow> fst ` set own \<subseteq> fst ` set (s_properties s)"
  by (cases s) (auto simp: list_all_iff)

lemma validates_items:
  "validates s (JArr xs) \<Longrightarrow> s_items s = Some si \<Longrightarrow> list_all (validates si) xs"
  by (cases s) simp

lemma validates_minItems:
  "validates s (JArr xs) \<Longrightarrow> s_minItems s \<le> length xs"
  by (cases s) simp

lemma has_type_object:
  assumes "has_type TObject v"
  obtains own where "v = JObj own"
  using assms by (cases v) simp_all

lemma has_type_array:
  assumes "has_type TArray v"
  obtains xs where "v = JArr xs"
  using assms by (cases v) simp_all

lemma own_property:
  assumes "k \<in> fst ` set own"
  obtains x where "map_of own k = Some x"
proof -
  from assms have "k \<in> dom (map_of own)"
    by (simp only: dom_map_of_conv_image_fst)
  then obtain x where "map_of own k = Some x"
    by (auto simp only: dom_def)
  then show ?thesis by (rule that)
qed

lemma in_spread_literal: "e \<in> set literal \<Longrightarrow> e \<in> set (spread base literal)"
  by (simp add: spread_def)

lemma spread_literal_key:
  "(k, s) \<in> set (spread base literal) \<Longrightarrow> k \<in> fst ` set literal \<Longrightarrow> (k, s) \<in> set literal"
  by (auto simp: spread_def)

subsection \<open>The enumerations\<close>

lemma string_enum_validator:
  "generateValidator (Schema (Some TString) False (Some allowed) [] AnyAdditional [] None 0 0) v
     = (\<exists>a. v = Some (JStr a) \<and> a \<in> set allowed)"
proof (cases v)
  case None
  then show ?thesis by simp
next
  case (Some x)
  then show ?thesis by (cases x) simp_all
qed

lemma Network_values:
  "(a \<in> set (map Network_value [ETHEREUM, MATIC, BSC, TEST])) = (\<exists>n. a = Network_value n)"
proof
  assume "a \<in> set (map Network_value [ETHEREUM, MATIC, BSC, TEST])"
  then show "\<exists>n. a = Network_value n" by (auto simp del: Network_value.simps)
next
  assume "\<exists>n. a = Network_value n"
  then obtain n where "a = Network_value n" ..
  then show "a \<in> set (map Network_value [ETHEREUM, MATIC, BSC, TEST])"
    by (cases n) simp_all
qed

lemma NFTCategory_values:
  "(a \<in> set (map NFTCategory_value [PARCEL, ESTATE, WEARABLE, PROPS, ENS, EMOTE]))
     = (\<exists>c. a = NFTCategory_value c)"
proof
  assume "a \<in> set (map NFTCategory_value [PARCEL, ESTATE, WEARABLE, PROPS, ENS, EMOTE])"
  then show "\<exists>c. a = NFTCategory_value c" by (auto simp del: NFTCategory_value.simps)
next
  assume "\<exists>c. a = NFTCategory_value c"
  then obtain c where "a = NFTCategory_value c" ..
  then show "a \<in> set (map NFTCategory_value [PARCEL, ESTATE, WEARABLE, PROPS, ENS, EMOTE])"
    by (cases c) simp_all
qed

lemma PropsCategory_values:
  "(a \<in> set (map PropsCategory_value [DIAMOND, BOX, FRAGMENTS, VIBRANIUM]))
     = (\<exists>c. a = PropsCategory_value c)"
proof
  assume "a \<in> set (map PropsCategory_value [DIAMOND, BOX, FRAGMENTS, VIBRANIUM])"
  then show "\<exists>c. a = PropsCategory_value c" by (auto simp del: PropsCategory_value.simps)
next
  assume "\<exists>c. a = PropsCategory_value c"
  then obtain c where "a = PropsCategory_value c" ..
  then show "a \<in> set (map PropsCategory_value [DIAMOND, BOX, FRAGMENTS, VIBRANIUM])"
    by (cases c) simp_all
qed

text \<open>
  C6. The validator of each of the three enumeration modules accepts a value exactly when
  the value is the string constant of a member of the enumeration. So it accepts every
  member, and rejects every other string and every value that is not a string
  (\<^verbatim>\<open>undefined\<close>, \<^verbatim>\<open>null\<close>, booleans, numbers, arrays and objects).
\<close>

theorem enum_validate_iff_member:
  "Network_validate v = (\<exists>n. v = Some (JStr (Network_value n)))
   \<and> NFTCategory_validate v = (\<exists>c. v = Some (JStr (NFTCategory_value c)))
   \<and> PropsCategory_validate v = (\<exists>c. v = Some (JStr (PropsCategory_value c)))"
proof (intro conjI)
  show "Network_validate v = (\<exists>n. v = Some (JStr (Network_value n)))"
    unfolding Network_validate_def Network_schema_def string_enum_validator Network_values
    by blast
  show "NFTCategory_validate v = (\<exists>c. v = Some (JStr (NFTCategory_value c)))"
    unfolding NFTCategory_validate_def NFTCategory_schema_def string_enum_validator
      NFTCategory_values
    by blast
  show "PropsCategory_validate v = (\<exists>c. v = Some (JStr (PropsCategory_value c)))"
    unfolding PropsCategory_validate_def PropsCategory_schema_def string_enum_validator
      PropsCategory_values
    by blast
qed

theorem enum_validate_iff_member_witness:
  "Network_validate (Some (JStr ''MATIC'')) \<and> \<not> Network_validate (Some (JStr ''matic''))
   \<and> NFTCategory_validate (Some (JStr ''estate'')) \<and> \<not> NFTCategory_validate (Some (JNum 3))
   \<and> PropsCategory_validate (Some (JStr ''box'')) \<and> \<not> PropsCategory_validate None"
proof -
  have "\<exists>n. Some (JStr ''MATIC'') = Some (JStr (Network_value n))"
    by (rule exI [of _ MATIC]) simp
  moreover have "\<not> (\<exists>n. Some (JStr ''matic'') = Some (JStr (Network_value n)))"
  proof
    assume "\<exists>n. Some (JStr ''matic'') = Some (JStr (Network_value n))"
    then obtain n where "Some (JStr ''matic'') = Some (JStr (Network_value n))" ..
    then show False by (cases n) simp_all
  qed
  moreover have "\<exists>c. Some (JStr ''estate'') = Some (JStr (NFTCategory_value c))"
    by (rule exI [of _ ESTATE]) simp
  moreover have "\<exists>c. Some (JStr ''box'') = Some (JStr (PropsCategory_value c))"
    by (rule exI [of _ BOX]) simp
  ultimately show ?thesis
    using enum_validate_iff_member [of "Some (JStr ''MATIC'')"]
      enum_validate_iff_member [of "Some (JStr ''matic'')"]
      enum_validate_iff_member [of "Some (JStr ''estate'')"]
      enum_validate_iff_member [of "Some (JNum 3)"]
      enum_validate_iff_member [of "Some (JStr ''box'')"]
      enum_validate_iff_member [of None]
    by simp
qed

subsection \<open>The third-party check\<close>

lemma every_hasOwnProperty_plain:
  "''hasOwnProperty'' \<notin> fst ` set own \<Longrightarrow>
     every (\<lambda>key i. hasOwnProperty (JObj own) key) ks i
       = Inr (list_all (\<lambda>key. key \<in> fst ` set own) ks)"
  by (induction ks arbitrary: i) simp_all

lemma every_hasOwnProperty_shadowed:
  "''hasOwnProperty'' \<in> fst ` set own \<Longrightarrow> ks \<noteq> [] \<Longrightarrow>
     every (\<lambda>key i. hasOwnProperty (JObj own) key) ks i = Inl TypeError"
  by (cases ks) simp_all

lemma strings_of_all:
  "list_all (validates (of_type TString)) xs \<Longrightarrow> \<exists>ss. strings_of xs = Some ss"
proof (induction xs)
  case Nil
  then show ?case by simp
next
  case (Cons x xs)
  then show ?case by (cases x) (auto simp: of_type_def)
qed

lemma MerkleProof_validate_fields:
  assumes "MerkleProof_validate env mp"
  shows "\<exists>hashingKeys proof. MerkleProof_fields mp = Some (hashingKeys, proof)"
proof -
  let ?keys = "Schema (Some TArray) False None [] AnyAdditional [] (Some (of_type TString)) 0 0"
  let ?proof = "Schema (Some TArray) False None [] AnyAdditional []
                  (Some (MerkleProof_hash_schema env)) 0 0"
  from assms obtain v where mp: "mp = Some v" and v: "validates (MerkleProof_schema env) v"
    by (cases mp) (simp_all add: MerkleProof_validate_def MerkleProof_schema_def)
  have "has_type TObject v"
    using validates_type [OF v, of TObject] by (simp add: MerkleProof_schema_def)
  then obtain own where own: "v = JObj own"
    by (rule has_type_object)
  have "''proof'' \<in> fst ` set own" and "''hashingKeys'' \<in> fst ` set own"
    using v unfolding own by (rule validates_required, simp add: MerkleProof_schema_def)+
  then obtain p k where p: "map_of own ''proof'' = Some p"
    and k: "map_of own ''hashingKeys'' = Some k"
    by (elim own_property)
  have "(''proof'', ?proof) \<in> set (s_properties (MerkleProof_schema env))"
    by (simp add: MerkleProof_schema_def in_spread_literal)
  with v [unfolded own] have vp: "validates ?proof p"
    using p by (rule validates_property)
  have "(''hashingKeys'', ?keys) \<in> set (s_properties (MerkleProof_schema env))"
    by (simp add: MerkleProof_schema_def in_spread_literal)
  with v [unfolded own] have vk: "validates ?keys k"
    using k by (rule validates_property)
  from vp obtain ps where ps: "p = JArr ps" by (cases p) simp_all
  from vk obtain ks where ks: "k = JArr ks" and "list_all (validates (of_type TString)) ks"
    by (cases k) simp_all
  then obtain hk where "strings_of ks = Some hk" using strings_of_all by blast
  with mp own p k ps ks show ?thesis by simp
qed

lemma validateThirdParty_cases:
  "validateThirdParty env (JObj own) =
     (if MerkleProof_validate env (map_of own ''merkleProof'') \<and> hashingKeys_of own \<noteq> []
         \<and> ''hasOwnProperty'' \<in> fst ` set own
      then Inl TypeError
      else Inr (wellFormedMerkleProof env own))"
proof (cases "MerkleProof_validate env (map_of own ''merkleProof'')")
  case False
  then show ?thesis
    by (simp add: validateThirdParty_def wellFormedMerkleProof_def)
next
  case valid: True
  then obtain hashingKeys "proof"
    where fields: "MerkleProof_fields (map_of own ''merkleProof'') = Some (hashingKeys, proof)"
    using MerkleProof_validate_fields by blast
  show ?thesis
  proof (cases "''hasOwnProperty'' \<in> fst ` set own")
    case True
    with valid fields show ?thesis
      by (simp add: validateThirdParty_def wellFormedMerkleProof_def hashingKeys_of_def
          every_hasOwnProperty_shadowed del: hasOwnProperty.simps)
  next
    case False
    with valid fields show ?thesis
      by (simp add: validateThirdParty_def wellFormedMerkleProof_def hashingKeys_of_def
          every_hasOwnProperty_plain del: hasOwnProperty.simps)
  qed
qed

subsection \<open>The standard check\<close>

lemma validateStandardWearable_typed:
  "optional_string collectionAddress \<Longrightarrow>
     validateStandardWearable env rarity collectionAddress
       = (Rarity_validate env rarity \<and> (\<exists>a. collectionAddress = Some (JStr a) \<and> a \<noteq> []))"
  by (cases collectionAddress rule: optional_string.cases)
     (simp_all add: validateStandardWearable_def)

lemma standardFields_iff:
  "standardFields env own
     = (Rarity_validate env (map_of own ''rarity'')
        \<and> (\<exists>a. map_of own ''collectionAddress'' = Some (JStr a) \<and> a \<noteq> []))"
  by (simp add: standardFields_def split: option.splits json.splits)

subsection \<open>The schema of a wearable\<close>

lemma schemaValidator_object:
  assumes "schemaValidator env w"
  shows "\<exists>own. w = Some (JObj own)"
proof -
  from assms obtain v where w: "w = Some v" and v: "validates (Wearable_schema env) v"
    by (cases w) (simp_all add: schemaValidator_def Wearable_schema_def)
  have "has_type TObject v"
    using validates_type [OF v, of TObject] by (simp add: Wearable_schema_def)
  then obtain own where "v = JObj own"
    by (rule has_type_object)
  with w show ?thesis by simp
qed

lemma schemaValidator_literal:
  assumes "schemaValidator env (Some (JObj own))"
    and "(k, s) \<in> set (Wearable_literal_properties env)" and "map_of own k = Some x"
  shows "validates s x"
proof -
  from assms(1) have v: "validates (Wearable_schema env) (JObj own)"
    by (simp add: schemaValidator_def)
  from assms(2) have "(k, s) \<in> set (s_properties (Wearable_schema env))"
    by (simp add: Wearable_schema_def Wearable_properties_def in_spread_literal)
  with v show ?thesis using assms(3) by (rule validates_property)
qed

lemma schemaValidator_required:
  assumes "schemaValidator env (Some (JObj own))"
    and "k \<in> set [''id'', ''description'', ''name'', ''data'', ''thumbnail'', ''image'', ''i18n'']"
  shows "k \<in> fst ` set own"
proof -
  from assms(1) have v: "validates (Wearable_schema env) (JObj own)"
    by (simp add: schemaValidator_def)
  from assms(2) have "k \<in> set (s_required (Wearable_schema env))"
    by (simp add: Wearable_schema_def)
  with v show ?thesis by (rule validates_required)
qed

lemma schemaValidator_collectionAddress:
  assumes "schemaValidator env (Some (JObj own))"
  shows "optional_string (map_of own ''collectionAddress'')"
proof (cases "map_of own ''collectionAddress''")
  case None
  then show ?thesis by simp
next
  case (Some x)
  have "(''collectionAddress'', nullable (of_type TString)) \<in> set (Wearable_literal_properties env)"
    by (simp add: Wearable_literal_properties_def)
  with assms have "validates (nullable (of_type TString)) x"
    using Some by (rule schemaValidator_literal)
  with Some show ?thesis by (cases x) (simp_all add: of_type_def)
qed

lemma schemaValidator_data:
  assumes "schemaValidator env (Some (JObj own))"
  shows "\<exists>data representations.
           map_of own ''data'' = Some (JObj data)
           \<and> map_of data ''representations'' = Some (JArr representations)
           \<and> 1 \<le> length representations
           \<and> fst ` set data
               \<subseteq> {''replaces'', ''hides'', ''tags'', ''representations'', ''category''}"
proof -
  let ?reps = "Schema (Some TArray) False None [] AnyAdditional []
                 (Some (WearableRepresentation_schema env)) 1 0"
  have "''data'' \<in> fst ` set own"
    using assms by (rule schemaValidator_required) simp
  then obtain d where d: "map_of own ''data'' = Some d"
    by (rule own_property)
  have "(''data'', Wearable_data_schema env) \<in> set (Wearable_literal_properties env)"
    by (simp add: Wearable_literal_properties_def)
  with assms have vd: "validates (Wearable_data_schema env) d"
    using d by (rule schemaValidator_literal)
  have "has_type TObject d"
    using validates_type [OF vd, of TObject] by (simp add: Wearable_data_schema_def)
  then obtain data where data: "d = JObj data"
    by (rule has_type_object)
  have "''representations'' \<in> fst ` set data"
    using vd unfolding data by (rule validates_required) (simp add: Wearable_data_schema_def)
  then obtain r where r: "map_of data ''representations'' = Some r"
    by (rule own_property)
  have "(''representations'', ?reps) \<in> set (s_properties (Wearable_data_schema env))"
    by (simp add: Wearable_data_schema_def)
  with vd [unfolded data] have vr: "validates ?reps r"
    using r by (rule validates_property)
  have "has_type TArray r"
    using validates_type [OF vr, of TArray] by simp
  then obtain representations where reps: "r = JArr representations"
    by (rule has_type_array)
  have "1 \<le> length representations"
    using validates_minItems [OF vr [unfolded reps]] by simp
  moreover have "fst ` set data
      \<subseteq> {''replaces'', ''hides'', ''tags'', ''representations'', ''category''}"
    using validates_no_additional [OF vd [unfolded data]]
    by (simp add: Wearable_data_schema_def)
  ultimately show ?thesis using d data r reps by simp
qed

lemma schemaValidator_i18n:
  assumes "schemaValidator env (Some (JObj own))"
  shows "\<exists>i18n. map_of own ''i18n'' = Some (JArr i18n) \<and> 1 \<le> length i18n
           \<and> list_all (validates (I18N_schema env)) i18n"
proof -
  let ?i18n = "Schema (Some TArray) False None [] AnyAdditional [] (Some (I18N_schema env)) 1 0"
  have "''i18n'' \<in> fst ` set own"
    using assms by (rule schemaValidator_required) simp
  then obtain x where x: "map_of own ''i18n'' = Some x"
    by (rule own_property)
  have "(''i18n'', ?i18n) \<in> set (Wearable_literal_properties env)"
    by (simp add: Wearable_literal_properties_def)
  with assms have vx: "validates ?i18n x"
    using x by (rule schemaValidator_literal)
  have "has_type TArray x"
    using validates_type [OF vx, of TArray] by simp
  then obtain i18n where i18n: "x = JArr i18n"
    by (rule has_type_array)
  have "1 \<le> length i18n"
    using validates_minItems [OF vx [unfolded i18n]] by simp
  moreover have "list_all (validates (I18N_schema env)) i18n"
    using validates_items [OF vx [unfolded i18n]] by simp
  ultimately show ?thesis using x i18n by simp
qed

subsection \<open>The validator\<close>

lemma validate_rejected: "\<not> schemaValidator env w \<Longrightarrow> validate env w = Inr False"
  by (simp add: validate_def)

lemma validate_object:
  assumes "schemaValidator env (Some (JObj own))"
  shows "validate env (Some (JObj own)) =
     (case validateDuplicatedLocales (map_of own ''i18n'') of
        Inl e \<Rightarrow> Inl e
      | Inr unique \<Rightarrow>
          if \<not> unique then Inr False
          else (case validateThirdParty env (JObj own) of
                  Inl e \<Rightarrow> Inl e
                | Inr thirdParty \<Rightarrow> Inr (XOR (standardFields env own) thirdParty)))"
proof -
  have "validateStandardWearable env (map_of own ''rarity'') (map_of own ''collectionAddress'')
          = standardFields env own"
    using schemaValidator_collectionAddress [OF assms]
    by (simp add: validateStandardWearable_typed standardFields_iff)
  with assms show ?thesis
    by (simp add: validate_def split: sum.splits)
qed

lemma validate_accepts:
  "(validate env w = Inr True) =
     (\<exists>own. w = Some (JObj own) \<and> schemaValidator env w
         \<and> validateDuplicatedLocales (map_of own ''i18n'') = Inr True
         \<and> validateThirdParty env (JObj own) = Inr (\<not> standardFields env own))"
proof (cases "schemaValidator env w")
  case False
  then show ?thesis by (simp add: validate_rejected)
next
  case True
  then obtain own where w: "w = Some (JObj own)"
    by (auto dest: schemaValidator_object)
  show ?thesis
    using True unfolding w
    by (auto simp: validate_object XOR_def split: sum.splits)
qed

subsection \<open>Repeated locales\<close>

lemma findIndex_returns:
  "(\<And>x j. x \<in> set xs \<Longrightarrow> \<exists>r. f x j = Inr r) \<Longrightarrow> \<exists>r. findIndex f xs i = Inr r"
proof (induction xs arbitrary: i)
  case Nil
  then show ?case by simp
next
  case (Cons x xs)
  obtain r where r: "f x i = Inr r"
    using Cons.prems [of x i] by auto
  have "\<exists>r. findIndex f xs (Suc i) = Inr r"
    using Cons.prems by (intro Cons.IH) simp
  with r show ?case by simp
qed

lemma findIndex_earlier:
  "(\<And>x j. x \<in> set xs \<Longrightarrow> \<exists>r. f x j = Inr r) \<Longrightarrow> a < b \<Longrightarrow> b < length xs
     \<Longrightarrow> f (xs ! a) (i + a) = Inr True \<Longrightarrow> findIndex f xs i \<noteq> Inr (int (i + b))"
proof (induction xs arbitrary: i a b)
  case Nil
  then show ?case by simp
next
  case (Cons x xs)
  obtain r where r: "f x i = Inr r"
    using Cons.prems(1) [of x i] by auto
  show ?case
  proof (cases r)
    case True
    with r Cons.prems(2) show ?thesis by simp
  next
    case False
    with r Cons.prems(4) obtain a' where a: "a = Suc a'"
      by (cases a) simp_all
    with Cons.prems(2) obtain b' where b: "b = Suc b'"
      by (cases b) simp_all
    have "findIndex f xs (Suc i) \<noteq> Inr (int (Suc i + b'))"
    proof (rule Cons.IH)
      show "\<And>y j. y \<in> set xs \<Longrightarrow> \<exists>r. f y j = Inr r"
        using Cons.prems(1) by simp
      show "a' < b'" using Cons.prems(2) a b by simp
      show "b' < length xs" using Cons.prems(3) b by simp
      show "f (xs ! a') (Suc i + a') = Inr True" using Cons.prems(4) a by simp
    qed
    with r False b show ?thesis by simp
  qed
qed

lemma findIndex_repeated:
  assumes "\<And>x j. x \<in> set xs \<Longrightarrow> \<exists>r. f x j = Inr r"
    and "a < b" and "b < length xs" and "f (xs ! a) a = Inr True"
  shows "findIndex f xs 0 \<noteq> Inr (int b)"
  using findIndex_earlier [of xs f a b 0] assms by simp

lemma every_rejects:
  "(\<And>x j. x \<in> set xs \<Longrightarrow> \<exists>r. g x j = Inr r) \<Longrightarrow> b < length xs
     \<Longrightarrow> g (xs ! b) (i + b) = Inr False \<Longrightarrow> every g xs i = Inr False"
proof (induction xs arbitrary: i b)
  case Nil
  then show ?case by simp
next
  case (Cons x xs)
  obtain r where r: "g x i = Inr r"
    using Cons.prems(1) [of x i] by auto
  show ?case
  proof (cases b)
    case 0
    with Cons.prems(3) show ?thesis by simp
  next
    case (Suc b')
    have "every g xs (Suc i) = Inr False"
    proof (rule Cons.IH)
      show "\<And>y j. y \<in> set xs \<Longrightarrow> \<exists>r. g y j = Inr r"
        using Cons.prems(1) by simp
      show "b' < length xs" using Cons.prems(2) Suc by simp
      show "g (xs ! b') (Suc i + b') = Inr False" using Cons.prems(3) Suc by simp
    qed
    with r show ?thesis by simp
  qed
qed

lemma every_rejects_at:
  assumes "\<And>x j. x \<in> set xs \<Longrightarrow> \<exists>r. g x j = Inr r"
    and "b < length xs" and "g (xs ! b) b = Inr False"
  shows "every g xs 0 = Inr False"
  using every_rejects [of xs g b 0] assms by simp

lemma prop_of_returns: "x \<noteq> JNull \<Longrightarrow> \<exists>c. prop_of x k = Inr c"
  by (cases x) simp_all

lemma prop_of_locale_code: "locale_code x = Some c \<Longrightarrow> prop_of x ''code'' = Inr (Some (JStr c))"
  by (cases x) (simp_all split: option.splits json.splits)

lemma repeated_locale:
  assumes no_null: "JNull \<notin> set entries"
    and "a < b" and "b < length entries"
    and "locale_code (entries ! a) = Some c" and "locale_code (entries ! b) = Some c"
  shows "validateDuplicatedLocales (Some (JArr entries)) = Inr False"
proof -
  let ?same = "\<lambda>index code i18n j.
      case prop_of i18n ''code'' of
        Inl e \<Rightarrow> Inl e
      | Inr c \<Rightarrow> Inr (j = index \<or> strict_equals c code)"
  let ?unique = "\<lambda>entry index.
      case prop_of entry ''code'' of
        Inl e \<Rightarrow> Inl e
      | Inr code \<Rightarrow>
          (case findIndex (?same index code) entries 0 of
             Inl e \<Rightarrow> Inl e
           | Inr found \<Rightarrow> Inr (found = int index))"
  have same: "\<exists>r. ?same index code x j = Inr r" if "x \<in> set entries" for index code x j
  proof -
    from that no_null have "x \<noteq> JNull" by auto
    then have "\<exists>cx. prop_of x ''code'' = Inr cx"
      by (rule prop_of_returns)
    then show ?thesis by auto
  qed
  have unique: "\<exists>r. ?unique x j = Inr r" if "x \<in> set entries" for x j
  proof -
    from that no_null have "x \<noteq> JNull" by auto
    then have "\<exists>cx. prop_of x ''code'' = Inr cx"
      by (rule prop_of_returns)
    then obtain cx where cx: "prop_of x ''code'' = Inr cx" ..
    have "\<exists>r. findIndex (?same j cx) entries 0 = Inr r"
      by (rule findIndex_returns) (rule same)
    then obtain found where "findIndex (?same j cx) entries 0 = Inr found" ..
    with cx show ?thesis by simp
  qed
  have "?same b (Some (JStr c)) (entries ! a) a = Inr True"
    using assms(4) by (simp add: prop_of_locale_code)
  with same have "findIndex (?same b (Some (JStr c))) entries 0 \<noteq> Inr (int b)"
    using assms(2,3) by (intro findIndex_repeated)
  moreover have "\<exists>r. findIndex (?same b (Some (JStr c))) entries 0 = Inr r"
    by (rule findIndex_returns) (rule same)
  ultimately have "?unique (entries ! b) b = Inr False"
    using assms(5) by (auto simp: prop_of_locale_code)
  with unique have "every ?unique entries 0 = Inr False"
    using assms(3) by (intro every_rejects_at)
  then show ?thesis by (simp add: validateDuplicatedLocales_def)
qed

text \<open>
  C5. Let the schema of an entry of \<^verbatim>\<open>i18n\<close> reject \<^verbatim>\<open>null\<close>. Then the validator returns
  false on every object whose \<^verbatim>\<open>i18n\<close> list has two entries with the same locale code,
  whatever its other fields are.
\<close>

theorem repeated_locale_rejected:
  assumes "\<not> validates (I18N_schema env) JNull"
    and "map_of own ''i18n'' = Some (JArr i18n)"
    and "a < b" and "b < length i18n"
    and "locale_code (i18n ! a) = Some c" and "locale_code (i18n ! b) = Some c"
  shows "validate env (Some (JObj own)) = Inr False"
proof (cases "schemaValidator env (Some (JObj own))")
  case False
  then show ?thesis by (rule validate_rejected)
next
  case True
  then have "list_all (validates (I18N_schema env)) i18n"
    using schemaValidator_i18n [OF True] assms(2) by auto
  with assms(1) have "JNull \<notin> set i18n"
    by (auto simp: list_all_iff)
  then have "validateDuplicatedLocales (Some (JArr i18n)) = Inr False"
    using assms(3-6) by (rule repeated_locale)
  with True assms(2) show ?thesis
    by (simp add: validate_object)
qed

theorem repeated_locale_rejected_witness:
  "\<not> validates (I18N_schema example_deps) JNull
   \<and> locale_code (example_i18n ''en'' ''hat'') = Some ''en''
   \<and> locale_code (example_i18n ''en'' ''cap'') = Some ''en''
   \<and> validate example_deps (Some (JObj example_repeated_locale)) = Inr False"
proof -
  let ?i18n = "[example_i18n ''en'' ''hat'', example_i18n ''es'' ''sombrero'',
                example_i18n ''en'' ''cap'']"
  have no_null: "\<not> validates (I18N_schema example_deps) JNull"
    by code_simp
  have i18n: "map_of example_repeated_locale ''i18n'' = Some (JArr ?i18n)"
    by code_simp
  have first: "locale_code (?i18n ! 0) = Some ''en''"
    by code_simp
  have third: "locale_code (?i18n ! 2) = Some ''en''"
    by code_simp
  have "validate example_deps (Some (JObj example_repeated_locale)) = Inr False"
    using repeated_locale_rejected [OF no_null i18n _ _ first third] by simp
  with no_null first third show ?thesis by simp
qed

subsection \<open>Adding a property\<close>

lemma map_of_added:
  assumes "k \<notin> fst ` set own"
  shows "map_of (own @ [(k, x)]) j = (if j = k then Some x else map_of own j)"
proof -
  from assms have "map_of own k = None"
    by (simp add: map_of_eq_None_iff)
  then show ?thesis
    by (simp add: map_add_def split: option.splits)
qed

lemma has_type_any_object: "has_type t (JObj own) = (t = TObject)"
  by (cases t) simp_all

lemma validates_added:
  assumes "validates s (JObj own)"
    and "s_additionalProperties s = AnyAdditional"
    and "k \<notin> fst ` set own"
    and "\<And>p. (k, p) \<in> set (s_properties s) \<Longrightarrow> validates p x"
  shows "validates s (JObj (own @ [(k, x)]))"
proof (cases s)
  case (Schema ty n enum props addl req items minItems minLength)
  have declared: "list_all
      (\<lambda>(j, p). case map_of (own @ [(k, x)]) j of None \<Rightarrow> True | Some y \<Rightarrow> validates p y)
      props"
    unfolding list_all_iff
  proof (intro ballI, clarify)
    fix j p
    assume jp: "(j, p) \<in> set props"
    show "case map_of (own @ [(k, x)]) j of None \<Rightarrow> True | Some y \<Rightarrow> validates p y"
    proof (cases "j = k")
      case True
      with jp assms(4) Schema have "validates p x" by simp
      with True assms(3) show ?thesis by (simp add: map_of_added del: map_of_append)
    next
      case False
      from assms(1) jp Schema
      have "case map_of own j of None \<Rightarrow> True | Some y \<Rightarrow> validates p y"
        by (auto simp: list_all_iff)
      with False assms(3) show ?thesis by (simp add: map_of_added del: map_of_append)
    qed
  qed
  from assms(1) Schema have "list_all (\<lambda>j. j \<in> fst ` set own) req"
    by simp
  then have "list_all (\<lambda>j. j \<in> fst ` set (own @ [(k, x)])) req"
    by (auto simp: list_all_iff)
  with assms(1,2) declared Schema show ?thesis
    by (simp add: has_type_any_object split: option.splits)
qed

lemma Wearable_content_property:
  assumes "(''content'', p) \<in> set (s_properties (Wearable_schema env))"
  shows "p = Wearable_content_schema"
proof -
  have "''content'' \<in> fst ` set (Wearable_literal_properties env)"
    by (simp add: Wearable_literal_properties_def)
  with assms have "(''content'', p) \<in> set (Wearable_literal_properties env)"
    by (simp add: Wearable_schema_def Wearable_properties_def spread_literal_key)
  then show ?thesis
    by (simp add: Wearable_literal_properties_def)
qed

lemma schemaValidator_content_added:
  assumes "schemaValidator env (Some (JObj own))"
    and "''content'' \<notin> fst ` set own"
    and "validates Wearable_content_schema content"
  shows "schemaValidator env (Some (JObj (own @ [(''content'', content)])))"
proof -
  from assms(1) have "validates (Wearable_schema env) (JObj own)"
    by (simp add: schemaValidator_def)
  moreover have "s_additionalProperties (Wearable_schema env) = AnyAdditional"
    by (simp add: Wearable_schema_def)
  moreover have "validates p content"
    if "(''content'', p) \<in> set (s_properties (Wearable_schema env))" for p
    using Wearable_content_property [OF that] assms(3) by simp
  ultimately have "validates (Wearable_schema env) (JObj (own @ [(''content'', content)]))"
    using assms(2) by (intro validates_added)
  then show ?thesis by (simp add: schemaValidator_def)
qed

lemma wellFormedMerkleProof_content_added:
  assumes "''content'' \<notin> fst ` set own" and "''content'' \<notin> set (hashingKeys_of own)"
  shows "wellFormedMerkleProof env (own @ [(''content'', content)])
           = wellFormedMerkleProof env own"
proof -
  have "list_all (\<lambda>key. key \<in> fst ` set (own @ [(''content'', content)])) keys
          = list_all (\<lambda>key. key \<in> fst ` set own) keys"
    if "''content'' \<notin> set keys" for keys
    using that by (auto simp: list_all_iff)
  with assms show ?thesis
    by (auto simp: wellFormedMerkleProof_def hashingKeys_of_def map_of_added
        simp del: map_of_append split: option.splits)
qed

text \<open>
  C8, as stated. The standard wearable whose Merkle proof hashes a \<^verbatim>\<open>content\<close> it does
  not have is accepted as standard: the rarity and the collection address are valid and
  the third-party check fails, for want of the hashed property. Once a \<^verbatim>\<open>content\<close>
  record of strings is added the third-party check passes too, and the validator returns
  false.
\<close>

theorem content_added_rejected:
  "validate example_deps (Some (JObj example_standard_hashing_content)) = Inr True
   \<and> validateStandardWearable example_deps
        (map_of example_standard_hashing_content ''rarity'')
        (map_of example_standard_hashing_content ''collectionAddress'')
   \<and> validateThirdParty example_deps (JObj example_standard_hashing_content) = Inr False
   \<and> ''content'' \<notin> fst ` set example_standard_hashing_content
   \<and> validates Wearable_content_schema example_content
   \<and> example_standard_hashing_content_added
       = example_standard_hashing_content @ [(''content'', example_content)]
   \<and> validate example_deps (Some (JObj example_standard_hashing_content_added)) = Inr False"
  by code_simp

text \<open>
  C8, amended. Let a wearable be accepted as standard, let it have no \<^verbatim>\<open>content\<close>, and
  let \<^verbatim>\<open>content\<close> not be one of the hashing keys of its Merkle proof, if it has one.
  Then the wearable is still accepted after a \<^verbatim>\<open>content\<close> that conforms to the schema
  of that field is added to it.
\<close>

theorem content_added_accepted:
  assumes "validate env (Some (JObj own)) = Inr True"
    and "standardFields env own"
    and "''content'' \<notin> fst ` set own"
    and "''content'' \<notin> set (hashingKeys_of own)"
    and "validates Wearable_content_schema content"
  shows "validate env (Some (JObj (own @ [(''content'', content)]))) = Inr True"
proof -
  let ?added = "own @ [(''content'', content)]"
  from assms(1) have valid: "schemaValidator env (Some (JObj own))"
    and unique: "validateDuplicatedLocales (map_of own ''i18n'') = Inr True"
    and tp: "validateThirdParty env (JObj own) = Inr (\<not> standardFields env own)"
    unfolding validate_accepts by simp_all
  have "schemaValidator env (Some (JObj ?added))"
    using valid assms(3,5) by (rule schemaValidator_content_added)
  moreover have "validateDuplicatedLocales (map_of ?added ''i18n'') = Inr True"
    using unique assms(3) by (simp add: map_of_added del: map_of_append)
  moreover have "standardFields env ?added = standardFields env own"
    using assms(3) by (simp add: standardFields_def map_of_added del: map_of_append)
  moreover have "validateThirdParty env (JObj ?added) = validateThirdParty env (JObj own)"
    unfolding validateThirdParty_cases
    using assms(3,4) wellFormedMerkleProof_content_added [OF assms(3,4), of env content]
    by (simp add: map_of_added hashingKeys_of_def del: map_of_append)
  ultimately show ?thesis
    unfolding validate_accepts using tp by simp
qed

theorem content_added_accepted_witness:
  "validate example_deps (Some (JObj example_standard)) = Inr True
   \<and> standardFields example_deps example_standard
   \<and> ''content'' \<notin> fst ` set example_standard
   \<and> ''content'' \<notin> set (hashingKeys_of example_standard)
   \<and> validates Wearable_content_schema example_content
   \<and> validate example_deps (Some (JObj (example_standard @ [(''content'', example_content)])))
       = Inr True"
proof -
  have accepted: "validate example_deps (Some (JObj example_standard)) = Inr True"
    by code_simp
  have standard: "standardFields example_deps example_standard"
    by code_simp
  have absent: "''content'' \<notin> fst ` set example_standard"
    by code_simp
  have not_hashed: "''content'' \<notin> set (hashingKeys_of example_standard)"
    by code_simp
  have conforms: "validates Wearable_content_schema example_content"
    by code_simp
  show ?thesis
    using content_added_accepted [OF accepted standard absent not_hashed conforms]
      accepted standard absent not_hashed conforms
    by simp
qed

subsection \<open>When the validator throws\<close>

lemma every_returns:
  "(\<And>x j. x \<in> set xs \<Longrightarrow> \<exists>r. g x j = Inr r) \<Longrightarrow> \<exists>r. every g xs i = Inr r"
proof (induction xs arbitrary: i)
  case Nil
  show ?case by (rule exI [of _ True]) simp
next
  case (Cons x xs)
  obtain r where r: "g x i = Inr r"
    using Cons.prems [of x i] by auto
  have "\<exists>r. every g xs (Suc i) = Inr r"
    using Cons.prems by (intro Cons.IH) simp
  with r show ?case by (cases r) auto
qed

lemma validateDuplicatedLocales_returns:
  assumes no_null: "JNull \<notin> set entries"
  shows "\<exists>unique. validateDuplicatedLocales (Some (JArr entries)) = Inr unique"
proof -
  let ?same = "\<lambda>index code i18n j.
      case prop_of i18n ''code'' of
        Inl e \<Rightarrow> Inl e
      | Inr c \<Rightarrow> Inr (j = index \<or> strict_equals c code)"
  let ?unique = "\<lambda>entry index.
      case prop_of entry ''code'' of
        Inl e \<Rightarrow> Inl e
      | Inr code \<Rightarrow>
          (case findIndex (?same index code) entries 0 of
             Inl e \<Rightarrow> Inl e
           | Inr found \<Rightarrow> Inr (found = int index))"
  have same: "\<exists>r. ?same index code x j = Inr r" if "x \<in> set entries" for index code x j
  proof -
    from that no_null have "x \<noteq> JNull" by auto
    then have "\<exists>cx. prop_of x ''code'' = Inr cx"
      by (rule prop_of_returns)
    then show ?thesis by auto
  qed
  have unique: "\<exists>r. ?unique x j = Inr r" if "x \<in> set entries" for x j
  proof -
    from that no_null have "x \<noteq> JNull" by auto
    then have "\<exists>cx. prop_of x ''code'' = Inr cx"
      by (rule prop_of_returns)
    then obtain cx where cx: "prop_of x ''code'' = Inr cx" ..
    have "\<exists>r. findIndex (?same j cx) entries 0 = Inr r"
      by (rule findIndex_returns) (rule same)
    then obtain found where "findIndex (?same j cx) entries 0 = Inr found" ..
    with cx show ?thesis by simp
  qed
  have "\<exists>r. every ?unique entries 0 = Inr r"
    by (rule every_returns) (rule unique)
  then show ?thesis by (simp add: validateDuplicatedLocales_def)
qed

text \<open>
  If the schema of an entry of \<^verbatim>\<open>i18n\<close> rejects \<^verbatim>\<open>null\<close>, the validator throws on
  exactly the values that pass the schema and the check of the locales and whose Merkle proof
  is valid and has a hashing key, while the value has an own property
  \<^verbatim>\<open>hasOwnProperty\<close>. On every other value it returns.
\<close>

lemma validate_throws_iff:
  assumes "\<not> validates (I18N_schema env) JNull"
  shows "(validate env w = Inl TypeError) =
     (\<exists>own. w = Some (JObj own) \<and> schemaValidator env w
        \<and> validateDuplicatedLocales (map_of own ''i18n'') = Inr True
        \<and> MerkleProof_validate env (map_of own ''merkleProof'')
        \<and> hashingKeys_of own \<noteq> []
        \<and> ''hasOwnProperty'' \<in> fst ` set own)"
proof (cases "schemaValidator env w")
  case False
  then show ?thesis by (simp add: validate_rejected)
next
  case True
  then obtain own where w: "w = Some (JObj own)"
    by (auto dest: schemaValidator_object)
  obtain i18n where i18n: "map_of own ''i18n'' = Some (JArr i18n)"
    and entries: "list_all (validates (I18N_schema env)) i18n"
    using schemaValidator_i18n [OF True [unfolded w]] by (elim exE conjE)
  from entries assms have "JNull \<notin> set i18n"
    by (auto simp: list_all_iff)
  then obtain unique where "validateDuplicatedLocales (map_of own ''i18n'') = Inr unique"
    unfolding i18n by (auto dest: validateDuplicatedLocales_returns)
  with True show ?thesis
    unfolding w by (simp add: validate_object validateThirdParty_cases)
qed

subsection \<open>The checks and the validator\<close>

text \<open>
  C3. For a wearable whose \<^verbatim>\<open>collectionAddress\<close> has its declared type (a string, absent,
  or the \<^verbatim>\<open>null\<close> the schema admits), the standard check returns true exactly when the
  rarity passes the validator of \<^verbatim>\<open>Rarity\<close> and the collection address is a non-empty
  string; \<^verbatim>\<open>isStandard\<close> returns what \<^verbatim>\<open>validateStandardWearable\<close> returns on the two
  fields.
\<close>

theorem standard_check_iff:
  assumes "optional_string (map_of own ''collectionAddress'')"
  shows "validateStandardWearable env (map_of own ''rarity'') (map_of own ''collectionAddress'')
           = (Rarity_validate env (map_of own ''rarity'')
              \<and> (\<exists>a. map_of own ''collectionAddress'' = Some (JStr a) \<and> a \<noteq> []))
         \<and> isStandard env (JObj own)
           = Inr (Rarity_validate env (map_of own ''rarity'')
                  \<and> (\<exists>a. map_of own ''collectionAddress'' = Some (JStr a) \<and> a \<noteq> []))"
  using assms by (simp add: isStandard_def validateStandardWearable_typed)

theorem standard_check_iff_witness:
  "optional_string (map_of example_standard ''collectionAddress'')
   \<and> isStandard example_deps (JObj example_standard) = Inr True
   \<and> Rarity_validate example_deps (map_of example_standard ''rarity'')
   \<and> (\<exists>a. map_of example_standard ''collectionAddress'' = Some (JStr a) \<and> a \<noteq> [])"
proof -
  have typed: "optional_string (map_of example_standard ''collectionAddress'')"
    by code_simp
  have "isStandard example_deps (JObj example_standard) = Inr True"
    by code_simp
  with typed show ?thesis
    using standard_check_iff [OF typed, of example_deps] by simp
qed

text \<open>
  C4. On the third-party wearable that has one more property named \<^verbatim>\<open>hasOwnProperty\<close>,
  the Merkle proof passes its validator, it has hashing keys, each of them names an own
  property of the wearable and the proof is not empty; the third-party check does not
  return true there, it throws.
\<close>

theorem third_party_check_throws:
  "wellFormedMerkleProof example_deps example_shadowing
   \<and> validateThirdParty example_deps (JObj example_shadowing) = Inl TypeError
   \<and> isThirdParty example_deps (JObj example_shadowing) = Inl TypeError"
  by code_simp

text \<open>
  C7. The same wearable passes the schema and has no repeated locale, and the validator
  throws on it instead of returning.
\<close>

theorem validate_throws:
  "validate example_deps (Some (JObj example_shadowing)) = Inl TypeError"
  by code_simp

text \<open>
  C1. The same wearable passes the schema, its locales are unique, the standard condition
  fails and the third-party condition holds, so exactly one of the two holds; the
  validator does not return true.
\<close>

theorem validate_not_true_on_exactly_one:
  "schemaValidator example_deps (Some (JObj example_shadowing))
   \<and> validateDuplicatedLocales (map_of example_shadowing ''i18n'') = Inr True
   \<and> \<not> standardFields example_deps example_shadowing
   \<and> wellFormedMerkleProof example_deps example_shadowing
   \<and> validate example_deps (Some (JObj example_shadowing)) \<noteq> Inr True"
  by code_simp

text \<open>
  C2, as stated. Three accepted wearables have neither of the two shapes. The standard
  wearable with a \<^verbatim>\<open>content\<close> record does not lack \<^verbatim>\<open>content\<close>. The standard wearable
  with a Merkle proof over a property it does not have does not lack \<^verbatim>\<open>merkleProof\<close>,
  and that proof is not well-formed for it. The third-party wearable with a \<^verbatim>\<open>rarity\<close>
  does not lack \<^verbatim>\<open>rarity\<close>, and has no \<^verbatim>\<open>collectionAddress\<close>.
\<close>

theorem accepted_with_neither_shape:
  "validate example_deps (Some (JObj example_standard_with_content)) = Inr True
   \<and> \<not> Standard_shape example_standard_with_content
   \<and> \<not> ThirdParty_shape example_deps example_standard_with_content
   \<and> validate example_deps (Some (JObj example_standard_hashing_content)) = Inr True
   \<and> \<not> Standard_shape example_standard_hashing_content
   \<and> \<not> ThirdParty_shape example_deps example_standard_hashing_content
   \<and> validate example_deps (Some (JObj example_third_party_with_rarity)) = Inr True
   \<and> \<not> Standard_shape example_third_party_with_rarity
   \<and> \<not> ThirdParty_shape example_deps example_third_party_with_rarity"
  by code_simp

text \<open>
  C2, amended. Every accepted value is an object that satisfies exactly one of the two
  conditions the validator checks: the standard one (the rarity passes its validator and
  the collection address is a non-empty string) or the third-party one (the Merkle proof
  passes its validator, has at least one hashing key, every hashing key is an own property
  and the proof is not empty). An object that satisfies both or neither is not accepted.
  Whether the fields of the other variant are absent is not checked.
\<close>

theorem accepted_exactly_one_condition:
  assumes "validate env w = Inr True"
  shows "\<exists>own. w = Some (JObj own)
           \<and> ((standardFields env own \<and> \<not> wellFormedMerkleProof env own)
              \<or> (wellFormedMerkleProof env own \<and> \<not> standardFields env own))"
proof -
  from assms obtain own where w: "w = Some (JObj own)"
    and tp: "validateThirdParty env (JObj own) = Inr (\<not> standardFields env own)"
    unfolding validate_accepts by (elim exE conjE)
  from tp have "wellFormedMerkleProof env own = (\<not> standardFields env own)"
    unfolding validateThirdParty_cases by (simp split: if_splits)
  with w show ?thesis by simp
qed

theorem accepted_exactly_one_condition_witness:
  "validate example_deps (Some (JObj example_third_party)) = Inr True
   \<and> (\<exists>own. Some (JObj example_third_party) = Some (JObj own)
         \<and> ((standardFields example_deps own \<and> \<not> wellFormedMerkleProof example_deps own)
            \<or> (wellFormedMerkleProof example_deps own \<and> \<not> standardFields example_deps own)))"
proof -
  have accepted: "validate example_deps (Some (JObj example_third_party)) = Inr True"
    by code_simp
  then show ?thesis
    using accepted_exactly_one_condition [OF accepted] by simp
qed

text \<open>
  C10. On every accepted value the two exported guards return, and exactly one of them
  returns true.
\<close>

theorem accepted_exactly_one_guard:
  assumes "validate env (Some w) = Inr True"
  shows "(isStandard env w = Inr True \<and> isThirdParty env w = Inr False)
         \<or> (isStandard env w = Inr False \<and> isThirdParty env w = Inr True)"
proof -
  from assms obtain own where w: "w = JObj own"
    and valid: "schemaValidator env (Some w)"
    and tp: "validateThirdParty env (JObj own) = Inr (\<not> standardFields env own)"
    unfolding validate_accepts by auto
  have "isStandard env (JObj own) = Inr (standardFields env own)"
    using schemaValidator_collectionAddress [OF valid [unfolded w]]
    by (simp add: isStandard_def validateStandardWearable_typed standardFields_iff)
  with tp show ?thesis
    unfolding w isThirdParty_def by simp
qed

theorem accepted_exactly_one_guard_witness:
  "validate example_deps (Some (JObj example_standard)) = Inr True
   \<and> isStandard example_deps (JObj example_standard) = Inr True
   \<and> isThirdParty example_deps (JObj example_standard) = Inr False"
proof -
  have accepted: "validate example_deps (Some (JObj example_standard)) = Inr True"
    by code_simp
  have "isStandard example_deps (JObj example_standard) = Inr True"
    by code_simp
  with accepted show ?thesis
    using accepted_exactly_one_guard [OF accepted] by simp
qed

text \<open>
  C9. Every accepted value passes the schema validator. It is an object with the seven
  required fields; its \<^verbatim>\<open>i18n\<close> is an array of at least one entry; its \<^verbatim>\<open>data\<close> is an
  object whose \<^verbatim>\<open>representations\<close> is an array of at least one entry and which has no
  property besides the five the schema declares.
\<close>

theorem accepted_satisfies_schema:
  assumes "validate env w = Inr True"
  shows "schemaValidator env w
         \<and> (\<exists>own i18n data representations.
               w = Some (JObj own)
               \<and> set [''id'', ''description'', ''name'', ''data'', ''thumbnail'', ''image'',
                      ''i18n''] \<subseteq> fst ` set own
               \<and> map_of own ''i18n'' = Some (JArr i18n) \<and> 1 \<le> length i18n
               \<and> map_of own ''data'' = Some (JObj data)
               \<and> map_of data ''representations'' = Some (JArr representations)
               \<and> 1 \<le> length representations
               \<and> fst ` set data
                   \<subseteq> {''replaces'', ''hides'', ''tags'', ''representations'', ''category''})"
proof -
  from assms obtain own where w: "w = Some (JObj own)" and valid: "schemaValidator env w"
    unfolding validate_accepts by (elim exE conjE)
  note object = valid [unfolded w]
  have "set [''id'', ''description'', ''name'', ''data'', ''thumbnail'', ''image'', ''i18n'']
          \<subseteq> fst ` set own"
    using schemaValidator_required [OF object] by (intro subsetI)
  moreover obtain i18n where "map_of own ''i18n'' = Some (JArr i18n)" and "1 \<le> length i18n"
    using schemaValidator_i18n [OF object] by (elim exE conjE)
  moreover obtain data representations where "map_of own ''data'' = Some (JObj data)"
    and "map_of data ''representations'' = Some (JArr representations)"
    and "1 \<le> length representations"
    and "fst ` set data \<subseteq> {''replaces'', ''hides'', ''tags'', ''representations'', ''category''}"
    using schemaValidator_data [OF object] by (elim exE conjE)
  ultimately show ?thesis using w valid by simp
qed

theorem accepted_satisfies_schema_witness:
  "validate example_deps (Some (JObj example_standard)) = Inr True
   \<and> schemaValidator example_deps (Some (JObj example_standard))
   \<and> (\<exists>i18n. map_of example_standard ''i18n'' = Some (JArr i18n) \<and> 1 \<le> length i18n)"
proof -
  have accepted: "validate example_deps (Some (JObj example_standard)) = Inr True"
    by code_simp
  then show ?thesis
    using accepted_satisfies_schema [OF accepted] by auto
qed

end
